theory Spec2Isabelle
  imports Main "HOL-Library.Word"
begin

section \<open>Data model of the IPTS receiver (src/src/receiver.c)\<close>

type_synonym u8 = "8 word"
type_synonym u32 = "32 word"

text \<open>
  The headers \<^verbatim>\<open>protocol.h\<close> and \<^verbatim>\<open>context.h\<close> are not part of the sources at hand, so the
  numeric values of the enumerators that \<^verbatim>\<open>receiver.c\<close> names are parameters of the model.
  Every enumerator is a 32-bit value, as the fields \<^verbatim>\<open>rsp->status\<close> and \<^verbatim>\<open>rsp->code\<close> are.
\<close>

record ipts_protocol =
  IPTS_STATUS_SUCCESS :: u32
  IPTS_STATUS_INVALID_PARAMS :: u32
  IPTS_STATUS_SENSOR_DISABLED :: u32
  IPTS_STATUS_COMPAT_CHECK_FAIL :: u32
  IPTS_STATUS_SENSOR_EXPECTED_RESET :: u32
  IPTS_STATUS_SENSOR_UNEXPECTED_RESET :: u32
  IPTS_RSP_GET_DEVICE_INFO :: u32
  IPTS_RSP_SET_MODE :: u32
  IPTS_RSP_SET_MEM_WINDOW :: u32
  IPTS_RSP_READY_FOR_DATA :: u32
  IPTS_RSP_FEEDBACK :: u32
  IPTS_RSP_RESET_SENSOR :: u32
  IPTS_HOST_STATUS_STARTED :: u32
  IPTS_HOST_STATUS_STOPPING :: u32
  IPTS_HOST_STATUS_STOPPED :: u32
  IPTS_MODE_SINGLETOUCH :: u32

text \<open>
  C rejects a \<^verbatim>\<open>switch\<close> with two equal case labels, so the labels of the two switches of
  \<^verbatim>\<open>receiver.c\<close> are pairwise distinct in every header the file compiles against. The
  model writes each switch as a chain of tests in label order, which is the switch exactly
  when the labels are distinct.
\<close>

definition protocol_wf :: "ipts_protocol \<Rightarrow> bool" where
  "protocol_wf P \<longleftrightarrow>
     distinct [IPTS_STATUS_SUCCESS P, IPTS_STATUS_COMPAT_CHECK_FAIL P,
               IPTS_STATUS_INVALID_PARAMS P, IPTS_STATUS_SENSOR_DISABLED P,
               IPTS_STATUS_SENSOR_EXPECTED_RESET P] \<and>
     distinct [IPTS_RSP_GET_DEVICE_INFO P, IPTS_RSP_SET_MODE P, IPTS_RSP_SET_MEM_WINDOW P,
               IPTS_RSP_READY_FOR_DATA P, IPTS_RSP_FEEDBACK P, IPTS_RSP_RESET_SENSOR P]"

text \<open>\<^verbatim>\<open>struct ipts_response\<close>: opcode, status and the payload bytes.\<close>

record ipts_response =
  rsp_code :: u32
  rsp_status :: u32
  rsp_payload :: "u8 list"

text \<open>
  \<^verbatim>\<open>struct ipts_context\<close>, with the fields that \<^verbatim>\<open>receiver.c\<close> reads or writes. The field
  \<open>doorbell\<close> is the 32-bit cell that \<^verbatim>\<open>ipts->doorbell.address\<close> points at, \<open>device_info\<close> the
  bytes of \<^verbatim>\<open>ipts->device_info\<close>, and \<open>on_device_ready\<close> tells whether the completion has
  been completed. Whatever else the context and the collaborators own (buffers, the HID
  device, the MEI client) lives in the extension part of the record.
\<close>

record ipts_context =
  status :: u32
  mode :: u32
  restart :: bool
  device_info :: "u8 list"
  doorbell :: u32
  on_device_ready :: bool

text \<open>
  What the file does to the outside, in program order: every call of a function that is
  defined elsewhere, and every log line.
\<close>

datatype ipts_event =
    Cmd_set_mode u32
  | Cmd_set_mem_window
  | Cmd_ready_for_data
  | Resources_alloc
  | Resources_free
  | Hid_init
  | Hid_free
  | Complete_all
  | Msleep nat
  | Control_start
  | Control_stop
  | Control_restart
  | Mei_cldev_recv
  | Log_alloc_failed
  | Log_command_failed u32 u32
  | Log_sensor_reset
  | Log_restart_failed
  | Log_handler_failed u32 int
  | Log_stop_failed
  | Log_read_failed int

record 'a ipts_state =
  ctx :: "'a ipts_context_scheme"
  trace :: "ipts_event list"

text \<open>
  The collaborators (\<^verbatim>\<open>cmd.h\<close>, \<^verbatim>\<open>resources.h\<close>, \<^verbatim>\<open>hid.h\<close>, \<^verbatim>\<open>control.h\<close>, the MEI bus) are
  parameters too: each one is a function of the context that returns its C result and
  the context it leaves behind. The results of \<^verbatim>\<open>ipts_hid_init\<close>, \<^verbatim>\<open>ipts_resources_free\<close> and
  \<^verbatim>\<open>ipts_hid_free\<close> are never looked at by \<^verbatim>\<open>receiver.c\<close>, so only their effect is kept.
  \<^verbatim>\<open>mei_cldev_recv\<close> returns its result, as the \<^verbatim>\<open>int\<close> that the callback stores it in,
  together with the frame it left in the buffer. A C \<^verbatim>\<open>int\<close> result is an \<open>int\<close> here: the
  file only tests results against zero and passes them on, it never computes with them.
\<close>

record 'c ipts_env =
  ipts_cmd_set_mode :: "u32 \<Rightarrow> 'c \<Rightarrow> int \<times> 'c"
  ipts_cmd_set_mem_window :: "'c \<Rightarrow> int \<times> 'c"
  ipts_cmd_ready_for_data :: "'c \<Rightarrow> int \<times> 'c"
  ipts_resources_alloc :: "'c \<Rightarrow> int \<times> 'c"
  ipts_resources_free :: "'c \<Rightarrow> 'c"
  ipts_hid_init :: "'c \<Rightarrow> 'c"
  ipts_hid_free :: "'c \<Rightarrow> 'c"
  ipts_control_start :: "'c \<Rightarrow> int \<times> 'c"
  ipts_control_stop :: "'c \<Rightarrow> int \<times> 'c"
  ipts_control_restart :: "'c \<Rightarrow> int \<times> 'c"
  mei_cldev_recv :: "'c \<Rightarrow> (int \<times> ipts_response) \<times> 'c"

section \<open>Calling out of the file\<close>

text \<open>
  \<open>emit\<close> appends an event to the trace; \<open>call\<close> and \<open>call_void\<close> run a collaborator on
  the context and record the call. A collaborator sees and changes the context only,
  never the trace. \<open>calls ev tr\<close> counts the occurrences of an event in a trace.
\<close>

definition emit :: "ipts_event \<Rightarrow> 'a ipts_state \<Rightarrow> 'a ipts_state" where
  "emit ev s = s\<lparr>trace := trace s @ [ev]\<rparr>"

definition call :: "ipts_event \<Rightarrow> ('a ipts_context_scheme \<Rightarrow> 'r \<times> 'a ipts_context_scheme) \<Rightarrow>
    'a ipts_state \<Rightarrow> 'r \<times> 'a ipts_state" where
  "call ev f s = (case f (ctx s) of (r, c) \<Rightarrow> (r, \<lparr>ctx = c, trace = trace s @ [ev]\<rparr>))"

definition call_void :: "ipts_event \<Rightarrow> ('a ipts_context_scheme \<Rightarrow> 'a ipts_context_scheme) \<Rightarrow>
    'a ipts_state \<Rightarrow> 'a ipts_state" where
  "call_void ev f s = \<lparr>ctx = f (ctx s), trace = trace s @ [ev]\<rparr>"

definition calls :: "ipts_event \<Rightarrow> ipts_event list \<Rightarrow> nat" where
  "calls ev tr = length (filter (\<lambda>e. e = ev) tr)"

section \<open>The response handlers\<close>

text \<open>
  Each handler takes the state and returns its C result with the state it leaves.

  Get-Device-Info: \<^verbatim>\<open>memcpy\<close> overwrites all \<^verbatim>\<open>sizeof(ipts->device_info)\<close> bytes of the device
  info with the leading bytes of the payload (the payload array of the frame is at least
  that long), then the Set-Mode command is sent with \<^verbatim>\<open>ipts->mode\<close>.
\<close>

definition ipts_receiver_handle_get_device_info ::
    "'a ipts_context_scheme ipts_env \<Rightarrow> ipts_response \<Rightarrow> 'a ipts_state \<Rightarrow> int \<times> 'a ipts_state" where
  "ipts_receiver_handle_get_device_info E rsp s =
     (let s1 = s\<lparr>ctx := (ctx s)\<lparr>device_info :=
                  take (length (device_info (ctx s))) (rsp_payload rsp)\<rparr>\<rparr>
      in call (Cmd_set_mode (mode (ctx s1))) (ipts_cmd_set_mode E (mode (ctx s1))) s1)"

text \<open>
  Set-Mode: allocate; on a non-zero result log and return it, else send the memory window.
\<close>

definition ipts_receiver_handle_set_mode ::
    "'a ipts_context_scheme ipts_env \<Rightarrow> 'a ipts_state \<Rightarrow> int \<times> 'a ipts_state" where
  "ipts_receiver_handle_set_mode E s =
     (case call Resources_alloc (ipts_resources_alloc E) s of
        (ret, s1) \<Rightarrow>
          if ret \<noteq> 0 then (ret, emit Log_alloc_failed s1)
          else call Cmd_set_mem_window (ipts_cmd_set_mem_window E) s1)"

text \<open>
  Set-Mem-Window: write the host status, initialise HID, \<^verbatim>\<open>complete_all\<close> the completion
  (a kernel call, recorded in the trace, whose effect on the context is that the
  completion is completed), send Ready-For-Data.
\<close>

definition ipts_receiver_handle_set_mem_window ::
    "ipts_protocol \<Rightarrow> 'a ipts_context_scheme ipts_env \<Rightarrow> 'a ipts_state \<Rightarrow> int \<times> 'a ipts_state" where
  "ipts_receiver_handle_set_mem_window P E s =
     (let s1 = s\<lparr>ctx := (ctx s)\<lparr>status := IPTS_HOST_STATUS_STARTED P\<rparr>\<rparr>;
          s2 = call_void Hid_init (ipts_hid_init E) s1;
          s3 = (emit Complete_all s2)\<lparr>ctx := (ctx s2)\<lparr>on_device_ready := True\<rparr>\<rparr>
      in call Cmd_ready_for_data (ipts_cmd_ready_for_data E) s3)"

text \<open>
  Ready-For-Data: outside Singletouch mode nothing; in Singletouch mode
  \<^verbatim>\<open>*doorbell = *doorbell + 1\<close> on a \<^verbatim>\<open>u32\<close>, which wraps at \<open>2 ^ 32\<close>. The pointer is taken
  to point at the doorbell cell of the context.
\<close>

definition ipts_receiver_handle_ready_for_data ::
    "ipts_protocol \<Rightarrow> 'a ipts_state \<Rightarrow> int \<times> 'a ipts_state" where
  "ipts_receiver_handle_ready_for_data P s =
     (if mode (ctx s) \<noteq> IPTS_MODE_SINGLETOUCH P then (0, s)
      else (0, s\<lparr>ctx := (ctx s)\<lparr>doorbell := doorbell (ctx s) + 1\<rparr>\<rparr>))"

text \<open>
  Feedback: in Singletouch mode resend Ready-For-Data, else nothing. The response is not
  looked at.
\<close>

definition ipts_receiver_handle_feedback ::
    "ipts_protocol \<Rightarrow> 'a ipts_context_scheme ipts_env \<Rightarrow> ipts_response \<Rightarrow> 'a ipts_state \<Rightarrow>
     int \<times> 'a ipts_state" where
  "ipts_receiver_handle_feedback P E rsp s =
     (if mode (ctx s) = IPTS_MODE_SINGLETOUCH P
      then call Cmd_ready_for_data (ipts_cmd_ready_for_data E) s
      else (0, s))"

text \<open>
  Reset: write the host status; with the restart flag set, \<^verbatim>\<open>msleep(1000)\<close> and start,
  else free the resources, then the HID device, and return 0.
\<close>

definition ipts_receiver_handle_reset ::
    "ipts_protocol \<Rightarrow> 'a ipts_context_scheme ipts_env \<Rightarrow> 'a ipts_state \<Rightarrow> int \<times> 'a ipts_state" where
  "ipts_receiver_handle_reset P E s =
     (let s1 = s\<lparr>ctx := (ctx s)\<lparr>status := IPTS_HOST_STATUS_STOPPED P\<rparr>\<rparr>
      in if restart (ctx s1)
         then call Control_start (ipts_control_start E) (emit (Msleep 1000) s1)
         else (0, call_void Hid_free (ipts_hid_free E)
                    (call_void Resources_free (ipts_resources_free E) s1)))"

section \<open>Error classification, dispatch and the channel callback\<close>

text \<open>
  The classifier: the switch on \<^verbatim>\<open>rsp->status\<close>, then the log line when the verdict is an
  error.
\<close>

definition ipts_receiver_handle_error ::
    "ipts_protocol \<Rightarrow> ipts_response \<Rightarrow> 'a ipts_state \<Rightarrow> bool \<times> 'a ipts_state" where
  "ipts_receiver_handle_error P rsp s =
     (let error =
            (if rsp_status rsp = IPTS_STATUS_SUCCESS P \<or>
                rsp_status rsp = IPTS_STATUS_COMPAT_CHECK_FAIL P then False
             else if rsp_status rsp = IPTS_STATUS_INVALID_PARAMS P
               then rsp_code rsp \<noteq> IPTS_RSP_FEEDBACK P
             else if rsp_status rsp = IPTS_STATUS_SENSOR_DISABLED P \<or>
                rsp_status rsp = IPTS_STATUS_SENSOR_EXPECTED_RESET P
               then status (ctx s) \<noteq> IPTS_HOST_STATUS_STOPPING P
             else True)
      in if \<not> error then (False, s)
         else (True, emit (Log_command_failed (rsp_code rsp) (rsp_status rsp)) s))"

text \<open>
  \<open>route\<close> is the switch on \<^verbatim>\<open>rsp->code\<close> inside \<^verbatim>\<open>ipts_receiver_handle_response\<close>, which
  sets \<^verbatim>\<open>ret\<close>; the default case is \<^verbatim>\<open>ret = 0\<close>.
\<close>

definition route ::
    "ipts_protocol \<Rightarrow> 'a ipts_context_scheme ipts_env \<Rightarrow> ipts_response \<Rightarrow> 'a ipts_state \<Rightarrow>
     int \<times> 'a ipts_state" where
  "route P E rsp s =
     (if rsp_code rsp = IPTS_RSP_GET_DEVICE_INFO P
        then ipts_receiver_handle_get_device_info E rsp s
      else if rsp_code rsp = IPTS_RSP_SET_MODE P
        then ipts_receiver_handle_set_mode E s
      else if rsp_code rsp = IPTS_RSP_SET_MEM_WINDOW P
        then ipts_receiver_handle_set_mem_window P E s
      else if rsp_code rsp = IPTS_RSP_READY_FOR_DATA P
        then ipts_receiver_handle_ready_for_data P s
      else if rsp_code rsp = IPTS_RSP_FEEDBACK P
        then ipts_receiver_handle_feedback P E rsp s
      else if rsp_code rsp = IPTS_RSP_RESET_SENSOR P
        then ipts_receiver_handle_reset P E s
      else (0, s))"

definition ipts_receiver_handle_response ::
    "ipts_protocol \<Rightarrow> 'a ipts_context_scheme ipts_env \<Rightarrow> ipts_response \<Rightarrow> 'a ipts_state \<Rightarrow>
     'a ipts_state" where
  "ipts_receiver_handle_response P E rsp s =
     (if rsp_status rsp = IPTS_STATUS_SENSOR_UNEXPECTED_RESET P then
        (case call Control_restart (ipts_control_restart E) (emit Log_sensor_reset s) of
           (r, s1) \<Rightarrow> if r \<noteq> 0 then emit Log_restart_failed s1 else s1)
      else
        (case ipts_receiver_handle_error P rsp s of
           (True, s1) \<Rightarrow> s1
         | (False, s1) \<Rightarrow>
             (case route P E rsp s1 of
                (ret, s2) \<Rightarrow>
                  if ret = 0 then s2
                  else
                    (case call Control_stop (ipts_control_stop E)
                            (emit (Log_handler_failed (rsp_code rsp) ret) s2) of
                       (r, s3) \<Rightarrow> if r \<noteq> 0 then emit Log_stop_failed s3 else s3))))"

text \<open>
  The callback. \<^verbatim>\<open>mei_cldev_get_drvdata\<close> only resolves the device handle to the context, so
  the model starts from the context.
\<close>

definition ipts_receiver_callback ::
    "ipts_protocol \<Rightarrow> 'a ipts_context_scheme ipts_env \<Rightarrow> 'a ipts_state \<Rightarrow> 'a ipts_state" where
  "ipts_receiver_callback P E s =
     (if status (ctx s) = IPTS_HOST_STATUS_STOPPED P then s
      else
        (case call Mei_cldev_recv (mei_cldev_recv E) s of
           ((ret, rsp), s1) \<Rightarrow>
             if ret \<le> 0 then emit (Log_read_failed ret) s1
             else ipts_receiver_handle_response P E rsp s1))"

section \<open>The decision table of the specification\<close>

text \<open>
  The error classifier as the specification tabulates it, row by row: a response is not an
  error when its status is Success or Compatibility-check-failed, when it is
  Invalid-parameters on a Feedback opcode, or when it is Sensor-disabled or
  Sensor-expected-reset while the host is Stopping; everything else is an error.
\<close>

definition is_error_spec :: "ipts_protocol \<Rightarrow> u32 \<Rightarrow> u32 \<Rightarrow> u32 \<Rightarrow> bool" where
  "is_error_spec P st opc hs \<longleftrightarrow>
     \<not> (st = IPTS_STATUS_SUCCESS P \<or>
        st = IPTS_STATUS_COMPAT_CHECK_FAIL P \<or>
        (st = IPTS_STATUS_INVALID_PARAMS P \<and> opc = IPTS_RSP_FEEDBACK P) \<or>
        ((st = IPTS_STATUS_SENSOR_DISABLED P \<or> st = IPTS_STATUS_SENSOR_EXPECTED_RESET P) \<and>
           hs = IPTS_HOST_STATUS_STOPPING P))"

section \<open>Runs of responses\<close>

text \<open>Feeding the dispatcher a list of responses, first to last.\<close>

definition dispatch_all ::
    "ipts_protocol \<Rightarrow> 'a ipts_context_scheme ipts_env \<Rightarrow> ipts_response list \<Rightarrow> 'a ipts_state \<Rightarrow>
     'a ipts_state" where
  "dispatch_all P E rsps s = fold (ipts_receiver_handle_response P E) rsps s"

text \<open>The Ready-For-Data handler run \<open>n\<close> times in a row.\<close>

definition ready_for_data_times :: "ipts_protocol \<Rightarrow> nat \<Rightarrow> 'a ipts_state \<Rightarrow> 'a ipts_state" where
  "ready_for_data_times P n s = ((\<lambda>t. snd (ipts_receiver_handle_ready_for_data P t)) ^^ n) s"

text \<open>
  A response that always passes the first two steps of the dispatcher: its status is not
  Sensor-unexpected-reset, and it is Success or Compatibility-check-failed, which the
  classifier accepts in every host state.
\<close>

definition benign :: "ipts_protocol \<Rightarrow> ipts_response \<Rightarrow> bool" where
  "benign P rsp \<longleftrightarrow>
     rsp_status rsp \<noteq> IPTS_STATUS_SENSOR_UNEXPECTED_RESET P \<and>
     (rsp_status rsp = IPTS_STATUS_SUCCESS P \<or> rsp_status rsp = IPTS_STATUS_COMPAT_CHECK_FAIL P)"

section \<open>Concrete instances\<close>

text \<open>
  One instance of the parameters to run the model on: enumerator values with distinct
  switch labels, collaborators that leave the context alone except that stopping marks the
  host as Stopping and restarting raises the restart flag, and whose fallible members
  return \<open>r\<close>.
\<close>

definition sample_protocol :: ipts_protocol where
  "sample_protocol =
     \<lparr>IPTS_STATUS_SUCCESS = 0, IPTS_STATUS_INVALID_PARAMS = 1,
      IPTS_STATUS_SENSOR_DISABLED = 9, IPTS_STATUS_COMPAT_CHECK_FAIL = 10,
      IPTS_STATUS_SENSOR_EXPECTED_RESET = 11, IPTS_STATUS_SENSOR_UNEXPECTED_RESET = 12,
      IPTS_RSP_GET_DEVICE_INFO = 0x80000001, IPTS_RSP_SET_MODE = 0x80000002,
      IPTS_RSP_SET_MEM_WINDOW = 0x80000003, IPTS_RSP_READY_FOR_DATA = 0x80000005,
      IPTS_RSP_FEEDBACK = 0x80000006, IPTS_RSP_RESET_SENSOR = 0x8000000B,
      IPTS_HOST_STATUS_STARTED = 1, IPTS_HOST_STATUS_STOPPING = 2,
      IPTS_HOST_STATUS_STOPPED = 3, IPTS_MODE_SINGLETOUCH = 0\<rparr>"

definition sample_env :: "int \<Rightarrow> ipts_context ipts_env" where
  "sample_env r =
     \<lparr>ipts_cmd_set_mode = (\<lambda>m c. (0, c)),
      ipts_cmd_set_mem_window = (\<lambda>c. (0, c)),
      ipts_cmd_ready_for_data = (\<lambda>c. (0, c)),
      ipts_resources_alloc = (\<lambda>c. (r, c)),
      ipts_resources_free = (\<lambda>c. c),
      ipts_hid_init = (\<lambda>c. c),
      ipts_hid_free = (\<lambda>c. c),
      ipts_control_start = (\<lambda>c. (r, c)),
      ipts_control_stop = (\<lambda>c. (0, c\<lparr>status := 2\<rparr>)),
      ipts_control_restart = (\<lambda>c. (r, c\<lparr>restart := True\<rparr>)),
      mei_cldev_recv =
        (\<lambda>c. ((8, \<lparr>rsp_code = 0x80000005, rsp_status = 0, rsp_payload = []\<rparr>), c))\<rparr>"

definition sample_state :: "u32 \<Rightarrow> u32 \<Rightarrow> bool \<Rightarrow> unit ipts_state" where
  "sample_state hs md rs =
     \<lparr>ctx = \<lparr>status = hs, mode = md, restart = rs, device_info = [0, 0],
             doorbell = 0xFFFFFFFF, on_device_ready = False\<rparr>,
      trace = []\<rparr>"

definition sample_response :: "u32 \<Rightarrow> u32 \<Rightarrow> ipts_response" where
  "sample_response opc st = \<lparr>rsp_code = opc, rsp_status = st, rsp_payload = [7, 8, 9]\<rparr>"

section \<open>Basic facts\<close>

lemma sample_protocol_wf: "protocol_wf sample_protocol"
  by (simp add: protocol_wf_def sample_protocol_def)

lemma call_eq:
  "call ev f s = (fst (f (ctx s)), \<lparr>ctx = snd (f (ctx s)), trace = trace s @ [ev]\<rparr>)"
  by (simp add: call_def split: prod.splits)

lemma calls_simps:
  "calls ev [] = 0"
  "calls ev (e # tr) = (if e = ev then Suc (calls ev tr) else calls ev tr)"
  "calls ev (tr @ tr') = calls ev tr + calls ev tr'"
  by (simp_all add: calls_def)

subsection \<open>The handlers, written out\<close>

lemma handle_get_device_info_trace:
  "trace (snd (ipts_receiver_handle_get_device_info E rsp s)) =
     trace s @ [Cmd_set_mode (mode (ctx s))]"
  by (simp add: ipts_receiver_handle_get_device_info_def Let_def call_eq)

lemma handle_set_mode_eq:
  "ipts_receiver_handle_set_mode E s =
     (if fst (ipts_resources_alloc E (ctx s)) \<noteq> 0 then
        (fst (ipts_resources_alloc E (ctx s)),
         \<lparr>ctx = snd (ipts_resources_alloc E (ctx s)),
          trace = trace s @ [Resources_alloc, Log_alloc_failed]\<rparr>)
      else
        (fst (ipts_cmd_set_mem_window E (snd (ipts_resources_alloc E (ctx s)))),
         \<lparr>ctx = snd (ipts_cmd_set_mem_window E (snd (ipts_resources_alloc E (ctx s)))),
          trace = trace s @ [Resources_alloc, Cmd_set_mem_window]\<rparr>))"
  by (simp add: ipts_receiver_handle_set_mode_def call_eq emit_def)

lemma handle_set_mem_window_eq:
  "ipts_receiver_handle_set_mem_window P E s =
     (let c1 = (ctx s)\<lparr>status := IPTS_HOST_STATUS_STARTED P\<rparr>;
          c2 = ipts_hid_init E c1;
          c3 = c2\<lparr>on_device_ready := True\<rparr>;
          r = ipts_cmd_ready_for_data E c3
      in (fst r, \<lparr>ctx = snd r, trace = trace s @ [Hid_init, Complete_all, Cmd_ready_for_data]\<rparr>))"
  by (simp add: ipts_receiver_handle_set_mem_window_def Let_def call_eq call_void_def emit_def)

lemma handle_ready_for_data_ok: "fst (ipts_receiver_handle_ready_for_data P s) = 0"
  by (simp add: ipts_receiver_handle_ready_for_data_def)

lemma handle_reset_eq:
  "ipts_receiver_handle_reset P E s =
     (if restart (ctx s) then
        (fst (ipts_control_start E ((ctx s)\<lparr>status := IPTS_HOST_STATUS_STOPPED P\<rparr>)),
         \<lparr>ctx = snd (ipts_control_start E ((ctx s)\<lparr>status := IPTS_HOST_STATUS_STOPPED P\<rparr>)),
          trace = trace s @ [Msleep 1000, Control_start]\<rparr>)
      else
        (0, \<lparr>ctx = ipts_hid_free E (ipts_resources_free E
                     ((ctx s)\<lparr>status := IPTS_HOST_STATUS_STOPPED P\<rparr>)),
             trace = trace s @ [Resources_free, Hid_free]\<rparr>))"
  by (simp add: ipts_receiver_handle_reset_def Let_def call_eq call_void_def emit_def)

subsection \<open>The dispatcher, path by path\<close>

lemma handle_error_accepts:
  "\<not> fst (ipts_receiver_handle_error P rsp s) \<Longrightarrow> ipts_receiver_handle_error P rsp s = (False, s)"
proof -
  have pick: "(if \<not> b then (False, s) else (True, t)) = (False, s)"
    if "\<not> fst (if \<not> b then (False, s) else (True, t))" for b and t :: "'a ipts_state"
    using that by (cases b) simp_all
  assume "\<not> fst (ipts_receiver_handle_error P rsp s)"
  then show ?thesis
    unfolding ipts_receiver_handle_error_def Let_def by (rule pick)
qed

lemma handle_error_benign:
  "benign P rsp \<Longrightarrow> ipts_receiver_handle_error P rsp s = (False, s)"
  by (auto simp add: ipts_receiver_handle_error_def benign_def Let_def)

lemma handle_response_reset_path:
  "rsp_status rsp = IPTS_STATUS_SENSOR_UNEXPECTED_RESET P \<Longrightarrow>
   ipts_receiver_handle_response P E rsp s =
     \<lparr>ctx = snd (ipts_control_restart E (ctx s)),
      trace = trace s @ [Log_sensor_reset, Control_restart] @
        (if fst (ipts_control_restart E (ctx s)) \<noteq> 0 then [Log_restart_failed] else [])\<rparr>"
  by (simp add: ipts_receiver_handle_response_def call_eq emit_def)

lemma handle_response_routed:
  assumes "rsp_status rsp \<noteq> IPTS_STATUS_SENSOR_UNEXPECTED_RESET P"
    and "\<not> fst (ipts_receiver_handle_error P rsp s)"
  shows "ipts_receiver_handle_response P E rsp s =
     (if fst (route P E rsp s) = 0 then snd (route P E rsp s)
      else
        \<lparr>ctx = snd (ipts_control_stop E (ctx (snd (route P E rsp s)))),
         trace = trace (snd (route P E rsp s)) @
           [Log_handler_failed (rsp_code rsp) (fst (route P E rsp s)), Control_stop] @
           (if fst (ipts_control_stop E (ctx (snd (route P E rsp s)))) \<noteq> 0
            then [Log_stop_failed] else [])\<rparr>)"
  using assms(1) handle_error_accepts [OF assms(2)]
  by (simp add: ipts_receiver_handle_response_def call_eq emit_def split: prod.splits)

lemma handle_response_benign:
  assumes "benign P rsp"
  shows "ipts_receiver_handle_response P E rsp s =
     (if fst (route P E rsp s) = 0 then snd (route P E rsp s)
      else
        \<lparr>ctx = snd (ipts_control_stop E (ctx (snd (route P E rsp s)))),
         trace = trace (snd (route P E rsp s)) @
           [Log_handler_failed (rsp_code rsp) (fst (route P E rsp s)), Control_stop] @
           (if fst (ipts_control_stop E (ctx (snd (route P E rsp s)))) \<noteq> 0
            then [Log_stop_failed] else [])\<rparr>)"
proof (rule handle_response_routed)
  show "rsp_status rsp \<noteq> IPTS_STATUS_SENSOR_UNEXPECTED_RESET P"
    using assms by (simp add: benign_def)
  show "\<not> fst (ipts_receiver_handle_error P rsp s)"
    by (simp add: handle_error_benign [OF assms])
qed

lemma route_get_device_info:
  "rsp_code rsp = IPTS_RSP_GET_DEVICE_INFO P \<Longrightarrow>
   route P E rsp s = ipts_receiver_handle_get_device_info E rsp s"
  by (simp add: route_def)

lemma route_set_mode:
  "protocol_wf P \<Longrightarrow> rsp_code rsp = IPTS_RSP_SET_MODE P \<Longrightarrow>
   route P E rsp s = ipts_receiver_handle_set_mode E s"
  by (auto simp add: route_def protocol_wf_def)

lemma route_set_mem_window:
  "protocol_wf P \<Longrightarrow> rsp_code rsp = IPTS_RSP_SET_MEM_WINDOW P \<Longrightarrow>
   route P E rsp s = ipts_receiver_handle_set_mem_window P E s"
  by (auto simp add: route_def protocol_wf_def)

lemma route_ready_for_data:
  "protocol_wf P \<Longrightarrow> rsp_code rsp = IPTS_RSP_READY_FOR_DATA P \<Longrightarrow>
   route P E rsp s = ipts_receiver_handle_ready_for_data P s"
  by (auto simp add: route_def protocol_wf_def)

lemma route_reset:
  "protocol_wf P \<Longrightarrow> rsp_code rsp = IPTS_RSP_RESET_SENSOR P \<Longrightarrow>
   route P E rsp s = ipts_receiver_handle_reset P E s"
  by (auto simp add: route_def protocol_wf_def)

lemma dispatch_ready_for_data:
  assumes "protocol_wf P" and "rsp_code rsp = IPTS_RSP_READY_FOR_DATA P" and "benign P rsp"
  shows "ipts_receiver_handle_response P E rsp s = snd (ipts_receiver_handle_ready_for_data P s)"
  by (simp add: handle_response_benign [OF assms(3)] route_ready_for_data [OF assms(1,2)]
      handle_ready_for_data_ok)

lemma dispatch_get_device_info_trace:
  assumes "rsp_code rsp = IPTS_RSP_GET_DEVICE_INFO P" and "benign P rsp"
  shows "calls Cmd_ready_for_data (trace (ipts_receiver_handle_response P E rsp s)) =
     calls Cmd_ready_for_data (trace s)"
  by (simp add: handle_response_benign [OF assms(2)] route_get_device_info [OF assms(1)]
      handle_get_device_info_trace calls_simps)

lemma dispatch_set_mode_trace:
  assumes "protocol_wf P" and "rsp_code rsp = IPTS_RSP_SET_MODE P" and "benign P rsp"
  shows "calls Cmd_ready_for_data (trace (ipts_receiver_handle_response P E rsp s)) =
     calls Cmd_ready_for_data (trace s)"
  by (simp add: handle_response_benign [OF assms(3)] route_set_mode [OF assms(1,2)]
      handle_set_mode_eq calls_simps)

lemma dispatch_set_mem_window_trace:
  assumes "protocol_wf P" and "rsp_code rsp = IPTS_RSP_SET_MEM_WINDOW P" and "benign P rsp"
  shows "calls Cmd_ready_for_data (trace (ipts_receiver_handle_response P E rsp s)) =
     calls Cmd_ready_for_data (trace s) + 1"
  by (simp add: handle_response_benign [OF assms(3)] route_set_mem_window [OF assms(1,2)]
      handle_set_mem_window_eq calls_simps Let_def)

lemma dispatch_set_mem_window_started:
  assumes "protocol_wf P" and "rsp_code rsp = IPTS_RSP_SET_MEM_WINDOW P" and "benign P rsp"
    and hid: "\<forall>c. status (ipts_hid_init E c) = status c"
    and rfd: "\<forall>c. fst (ipts_cmd_ready_for_data E c) = 0 \<and>
           status (snd (ipts_cmd_ready_for_data E c)) = status c \<and>
           on_device_ready (snd (ipts_cmd_ready_for_data E c)) = on_device_ready c"
  shows "status (ctx (ipts_receiver_handle_response P E rsp s)) = IPTS_HOST_STATUS_STARTED P \<and>
     on_device_ready (ctx (ipts_receiver_handle_response P E rsp s))"
  by (simp add: handle_response_benign [OF assms(3)] route_set_mem_window [OF assms(1,2)]
      handle_set_mem_window_eq Let_def hid rfd)

subsection \<open>Repeated Ready-For-Data\<close>

lemma ready_for_data_times_singletouch:
  assumes "mode (ctx s) = IPTS_MODE_SINGLETOUCH P"
  shows "ready_for_data_times P n s =
     s\<lparr>ctx := (ctx s)\<lparr>doorbell := doorbell (ctx s) + of_nat n\<rparr>\<rparr>"
proof (induction n)
  case 0
  show ?case by (simp add: ready_for_data_times_def)
next
  case (Suc n)
  have "ready_for_data_times P (Suc n) s =
      snd (ipts_receiver_handle_ready_for_data P (ready_for_data_times P n s))"
    by (simp add: ready_for_data_times_def)
  also have "\<dots> = s\<lparr>ctx := (ctx s)\<lparr>doorbell := doorbell (ctx s) + of_nat (Suc n)\<rparr>\<rparr>"
    using assms by (simp add: Suc.IH ipts_receiver_handle_ready_for_data_def add.assoc)
  finally show ?case .
qed

lemma ready_for_data_times_other_mode:
  assumes "mode (ctx s) \<noteq> IPTS_MODE_SINGLETOUCH P"
  shows "ready_for_data_times P n s = s"
proof (induction n)
  case 0
  show ?case by (simp add: ready_for_data_times_def)
next
  case (Suc n)
  have "ready_for_data_times P (Suc n) s =
      snd (ipts_receiver_handle_ready_for_data P (ready_for_data_times P n s))"
    by (simp add: ready_for_data_times_def)
  then show ?case
    using assms by (simp add: Suc.IH ipts_receiver_handle_ready_for_data_def)
qed

lemma dispatch_all_ready_for_data:
  assumes "protocol_wf P"
    and "\<forall>rsp \<in> set rsps. rsp_code rsp = IPTS_RSP_READY_FOR_DATA P \<and> benign P rsp"
  shows "dispatch_all P E rsps s = ready_for_data_times P (length rsps) s"
  using assms(2)
proof (induction rsps arbitrary: s)
  case Nil
  show ?case by (simp add: dispatch_all_def ready_for_data_times_def)
next
  case (Cons rsp rsps)
  have step: "ipts_receiver_handle_response P E rsp s =
      snd (ipts_receiver_handle_ready_for_data P s)"
    using Cons.prems by (simp add: dispatch_ready_for_data [OF assms(1)])
  have "dispatch_all P E (rsp # rsps) s =
      dispatch_all P E rsps (snd (ipts_receiver_handle_ready_for_data P s))"
    by (simp add: dispatch_all_def step)
  also have "\<dots> = ready_for_data_times P (length rsps)
      (snd (ipts_receiver_handle_ready_for_data P s))"
    using Cons.prems by (intro Cons.IH) simp
  also have "\<dots> = ready_for_data_times P (length (rsp # rsps)) s"
    using funpow_swap1 [of "\<lambda>t. snd (ipts_receiver_handle_ready_for_data P t)" "length rsps" s]
    by (simp add: ready_for_data_times_def)
  finally show ?case .
qed

lemma unat_plus_of_nat: "unat ((w :: u32) + of_nat n) = (unat w + n) mod 2 ^ 32"
  by (simp add: unat_word_ariths unat_of_nat mod_add_right_eq)

section \<open>The error classifier\<close>

text \<open>
  Claim C1. Under distinct switch labels, the classification that
  \<^verbatim>\<open>ipts_receiver_handle_error\<close> returns is the value of the specification's decision table
  for every status, opcode and host status: Success and Compatibility-check-failed are
  never errors, Invalid-parameters is an error exactly when the opcode is not Feedback,
  Sensor-disabled and Sensor-expected-reset are errors exactly when the host status is not
  Stopping, and every other status is an error.
\<close>

theorem handle_error_table:
  assumes "protocol_wf P"
  shows "fst (ipts_receiver_handle_error P rsp s) =
           is_error_spec P (rsp_status rsp) (rsp_code rsp) (status (ctx s)) \<and>
         (rsp_status rsp = IPTS_STATUS_SUCCESS P \<or>
          rsp_status rsp = IPTS_STATUS_COMPAT_CHECK_FAIL P \<longrightarrow>
            \<not> fst (ipts_receiver_handle_error P rsp s)) \<and>
         (rsp_status rsp = IPTS_STATUS_INVALID_PARAMS P \<longrightarrow>
            fst (ipts_receiver_handle_error P rsp s) = (rsp_code rsp \<noteq> IPTS_RSP_FEEDBACK P)) \<and>
         (rsp_status rsp = IPTS_STATUS_SENSOR_DISABLED P \<or>
          rsp_status rsp = IPTS_STATUS_SENSOR_EXPECTED_RESET P \<longrightarrow>
            fst (ipts_receiver_handle_error P rsp s) =
              (status (ctx s) \<noteq> IPTS_HOST_STATUS_STOPPING P)) \<and>
         (rsp_status rsp \<notin> {IPTS_STATUS_SUCCESS P, IPTS_STATUS_COMPAT_CHECK_FAIL P,
            IPTS_STATUS_INVALID_PARAMS P, IPTS_STATUS_SENSOR_DISABLED P,
            IPTS_STATUS_SENSOR_EXPECTED_RESET P} \<longrightarrow>
            fst (ipts_receiver_handle_error P rsp s))"
  using assms
  by (auto simp add: ipts_receiver_handle_error_def is_error_spec_def protocol_wf_def Let_def)

theorem handle_error_table_witness:
  "protocol_wf sample_protocol \<and>
   \<not> fst (ipts_receiver_handle_error sample_protocol (sample_response 0x80000006 1)
           (sample_state 1 0 False)) \<and>
   fst (ipts_receiver_handle_error sample_protocol (sample_response 0x80000005 1)
         (sample_state 1 0 False)) \<and>
   \<not> fst (ipts_receiver_handle_error sample_protocol (sample_response 0x8000000B 9)
           (sample_state 2 0 False)) \<and>
   fst (ipts_receiver_handle_error sample_protocol (sample_response 0x8000000B 9)
         (sample_state 1 0 False))"
  using sample_protocol_wf
    handle_error_table [OF sample_protocol_wf, of "sample_response 0x80000006 1"
      "sample_state 1 0 False"]
    handle_error_table [OF sample_protocol_wf, of "sample_response 0x80000005 1"
      "sample_state 1 0 False"]
    handle_error_table [OF sample_protocol_wf, of "sample_response 0x8000000B 9"
      "sample_state 2 0 False"]
    handle_error_table [OF sample_protocol_wf, of "sample_response 0x8000000B 9"
      "sample_state 1 0 False"]
  by (simp add: sample_protocol_def sample_response_def sample_state_def is_error_spec_def)

section \<open>The dispatcher\<close>

text \<open>
  Claim C2. A response whose status is Sensor-unexpected-reset, whatever its opcode and
  whatever the host state, makes the dispatcher log the reset and call
  \<^verbatim>\<open>ipts_control_restart\<close> once, log a failed restart, and nothing more: the context
  afterwards is the one the restart left, and the trace gained no classifier log line and
  no call or write of any response handler.
\<close>

theorem unexpected_reset_short_circuits:
  assumes "rsp_status rsp = IPTS_STATUS_SENSOR_UNEXPECTED_RESET P"
  shows "ipts_receiver_handle_response P E rsp s =
     \<lparr>ctx = snd (ipts_control_restart E (ctx s)),
      trace = trace s @ [Log_sensor_reset, Control_restart] @
        (if fst (ipts_control_restart E (ctx s)) \<noteq> 0 then [Log_restart_failed] else [])\<rparr> \<and>
     calls Control_restart (trace (ipts_receiver_handle_response P E rsp s)) =
       calls Control_restart (trace s) + 1 \<and>
     calls (Log_command_failed (rsp_code rsp) (rsp_status rsp))
         (trace (ipts_receiver_handle_response P E rsp s)) =
       calls (Log_command_failed (rsp_code rsp) (rsp_status rsp)) (trace s)"
  by (simp add: handle_response_reset_path [OF assms] calls_simps)

theorem unexpected_reset_short_circuits_witness:
  "rsp_status (sample_response 0x80000003 12) =
     IPTS_STATUS_SENSOR_UNEXPECTED_RESET sample_protocol \<and>
   ipts_receiver_handle_response sample_protocol (sample_env (- 5))
       (sample_response 0x80000003 12) (sample_state 1 0 False) =
     \<lparr>ctx = \<lparr>status = 1, mode = 0, restart = True, device_info = [0, 0],
             doorbell = 0xFFFFFFFF, on_device_ready = False\<rparr>,
      trace = [Log_sensor_reset, Control_restart, Log_restart_failed]\<rparr>"
  using unexpected_reset_short_circuits [of "sample_response 0x80000003 12" sample_protocol
      "sample_env (- 5)" "sample_state 1 0 False"]
  by (simp add: sample_protocol_def sample_response_def sample_env_def sample_state_def)

section \<open>The channel callback\<close>

text \<open>
  Claim C3. When the host status is Stopped as \<^verbatim>\<open>ipts_receiver_callback\<close> runs, the callback
  returns at once: the state after it is the state before it, so no frame was read from
  the transport, nothing was logged, no handler or collaborator ran, and no field of the
  context changed.
\<close>

theorem callback_stopped_discards:
  "status (ctx s) = IPTS_HOST_STATUS_STOPPED P \<Longrightarrow> ipts_receiver_callback P E s = s"
  by (simp add: ipts_receiver_callback_def)

theorem callback_stopped_discards_witness:
  "status (ctx (sample_state 3 0 False)) = IPTS_HOST_STATUS_STOPPED sample_protocol \<and>
   ipts_receiver_callback sample_protocol (sample_env 0) (sample_state 3 0 False) =
     sample_state 3 0 False"
  using callback_stopped_discards [of "sample_state 3 0 False" sample_protocol "sample_env 0"]
  by (simp add: sample_state_def sample_protocol_def)

section \<open>The handlers\<close>

text \<open>
  Claim C4. \<^verbatim>\<open>ipts_receiver_handle_set_mem_window\<close> always sets the host status to Started,
  then initialises the HID layer, then completes the readiness completion, then issues one
  Ready-For-Data command and returns its result. Dispatching accepted Get-Device-Info,
  Set-Mode and Set-Mem-Window responses in this order issues exactly one Ready-For-Data
  command; when HID initialisation and the Ready-For-Data command leave the host status
  and the completion alone and the command succeeds, the run ends with host status
  Started and the completion completed.
\<close>

theorem set_mem_window_brings_up:
  "ipts_receiver_handle_set_mem_window P E s =
     (let c1 = (ctx s)\<lparr>status := IPTS_HOST_STATUS_STARTED P\<rparr>;
          c2 = ipts_hid_init E c1;
          c3 = c2\<lparr>on_device_ready := True\<rparr>;
          r = ipts_cmd_ready_for_data E c3
      in (fst r, \<lparr>ctx = snd r, trace = trace s @ [Hid_init, Complete_all, Cmd_ready_for_data]\<rparr>)) \<and>
   (protocol_wf P \<and>
    rsp_code r1 = IPTS_RSP_GET_DEVICE_INFO P \<and> benign P r1 \<and>
    rsp_code r2 = IPTS_RSP_SET_MODE P \<and> benign P r2 \<and>
    rsp_code r3 = IPTS_RSP_SET_MEM_WINDOW P \<and> benign P r3 \<longrightarrow>
      calls Cmd_ready_for_data (trace (dispatch_all P E [r1, r2, r3] s)) =
        calls Cmd_ready_for_data (trace s) + 1 \<and>
      ((\<forall>c. status (ipts_hid_init E c) = status c) \<and>
       (\<forall>c. fst (ipts_cmd_ready_for_data E c) = 0 \<and>
            status (snd (ipts_cmd_ready_for_data E c)) = status c \<and>
            on_device_ready (snd (ipts_cmd_ready_for_data E c)) = on_device_ready c) \<longrightarrow>
         status (ctx (dispatch_all P E [r1, r2, r3] s)) = IPTS_HOST_STATUS_STARTED P \<and>
         on_device_ready (ctx (dispatch_all P E [r1, r2, r3] s))))"
proof (intro conjI impI)
  show "ipts_receiver_handle_set_mem_window P E s =
     (let c1 = (ctx s)\<lparr>status := IPTS_HOST_STATUS_STARTED P\<rparr>;
          c2 = ipts_hid_init E c1;
          c3 = c2\<lparr>on_device_ready := True\<rparr>;
          r = ipts_cmd_ready_for_data E c3
      in (fst r, \<lparr>ctx = snd r, trace = trace s @ [Hid_init, Complete_all, Cmd_ready_for_data]\<rparr>))"
    by (rule handle_set_mem_window_eq)
next
  assume h: "protocol_wf P \<and>
    rsp_code r1 = IPTS_RSP_GET_DEVICE_INFO P \<and> benign P r1 \<and>
    rsp_code r2 = IPTS_RSP_SET_MODE P \<and> benign P r2 \<and>
    rsp_code r3 = IPTS_RSP_SET_MEM_WINDOW P \<and> benign P r3"
  have run: "dispatch_all P E [r1, r2, r3] s =
      ipts_receiver_handle_response P E r3
        (ipts_receiver_handle_response P E r2 (ipts_receiver_handle_response P E r1 s))"
    by (simp add: dispatch_all_def)
  show "calls Cmd_ready_for_data (trace (dispatch_all P E [r1, r2, r3] s)) =
        calls Cmd_ready_for_data (trace s) + 1"
    using h
    by (simp add: run dispatch_set_mem_window_trace dispatch_set_mode_trace
        dispatch_get_device_info_trace)
  assume f: "(\<forall>c. status (ipts_hid_init E c) = status c) \<and>
       (\<forall>c. fst (ipts_cmd_ready_for_data E c) = 0 \<and>
            status (snd (ipts_cmd_ready_for_data E c)) = status c \<and>
            on_device_ready (snd (ipts_cmd_ready_for_data E c)) = on_device_ready c)"
  have fin: "status (ctx (ipts_receiver_handle_response P E r3 t)) = IPTS_HOST_STATUS_STARTED P \<and>
      on_device_ready (ctx (ipts_receiver_handle_response P E r3 t))" for t
    using h f by (intro dispatch_set_mem_window_started) simp_all
  show "status (ctx (dispatch_all P E [r1, r2, r3] s)) = IPTS_HOST_STATUS_STARTED P"
    using fin by (simp add: run)
  show "on_device_ready (ctx (dispatch_all P E [r1, r2, r3] s))"
    using fin by (simp add: run)
qed

theorem set_mem_window_brings_up_witness:
  "protocol_wf sample_protocol \<and>
   dispatch_all sample_protocol (sample_env 0)
     [sample_response 0x80000001 0, sample_response 0x80000002 0, sample_response 0x80000003 0]
     (sample_state 0 0 False) =
     \<lparr>ctx = \<lparr>status = 1, mode = 0, restart = False, device_info = [7, 8],
             doorbell = 0xFFFFFFFF, on_device_ready = True\<rparr>,
      trace = [Cmd_set_mode 0, Resources_alloc, Cmd_set_mem_window, Hid_init, Complete_all,
               Cmd_ready_for_data]\<rparr> \<and>
   calls Cmd_ready_for_data (trace (dispatch_all sample_protocol (sample_env 0)
     [sample_response 0x80000001 0, sample_response 0x80000002 0, sample_response 0x80000003 0]
     (sample_state 0 0 False))) = 1"
  using set_mem_window_brings_up [of sample_protocol "sample_env 0" "sample_state 0 0 False"
      "sample_response 0x80000001 0" "sample_response 0x80000002 0"
      "sample_response 0x80000003 0"]
    sample_protocol_wf
  by (simp add: sample_protocol_def sample_env_def sample_state_def sample_response_def
      benign_def dispatch_all_def ipts_receiver_handle_response_def
      ipts_receiver_handle_error_def route_def ipts_receiver_handle_get_device_info_def
      ipts_receiver_handle_set_mode_def ipts_receiver_handle_set_mem_window_def
      call_def call_void_def emit_def calls_def Let_def)

text \<open>
  Claim C5. \<^verbatim>\<open>ipts_receiver_handle_reset\<close> writes host status Stopped before anything else
  in both branches. With the restart flag set it sleeps 1000 ms and calls
  \<^verbatim>\<open>ipts_control_start\<close> on that context, without freeing resources or tearing down the
  HID device. With the flag clear it frees the resources once, tears down the HID device
  once, never calls start, and returns 0.
\<close>

theorem reset_handler_branches:
  "(restart (ctx s) \<longrightarrow>
      ipts_receiver_handle_reset P E s =
        (fst (ipts_control_start E ((ctx s)\<lparr>status := IPTS_HOST_STATUS_STOPPED P\<rparr>)),
         \<lparr>ctx = snd (ipts_control_start E ((ctx s)\<lparr>status := IPTS_HOST_STATUS_STOPPED P\<rparr>)),
          trace = trace s @ [Msleep 1000, Control_start]\<rparr>) \<and>
      calls Resources_free (trace (snd (ipts_receiver_handle_reset P E s))) =
        calls Resources_free (trace s) \<and>
      calls Hid_free (trace (snd (ipts_receiver_handle_reset P E s))) =
        calls Hid_free (trace s)) \<and>
   (\<not> restart (ctx s) \<longrightarrow>
      ipts_receiver_handle_reset P E s =
        (0, \<lparr>ctx = ipts_hid_free E (ipts_resources_free E
                     ((ctx s)\<lparr>status := IPTS_HOST_STATUS_STOPPED P\<rparr>)),
             trace = trace s @ [Resources_free, Hid_free]\<rparr>) \<and>
      calls Resources_free (trace (snd (ipts_receiver_handle_reset P E s))) =
        calls Resources_free (trace s) + 1 \<and>
      calls Hid_free (trace (snd (ipts_receiver_handle_reset P E s))) =
        calls Hid_free (trace s) + 1 \<and>
      calls Control_start (trace (snd (ipts_receiver_handle_reset P E s))) =
        calls Control_start (trace s))"
  by (simp add: handle_reset_eq calls_simps)

theorem reset_handler_branches_witness:
  "ipts_receiver_handle_reset sample_protocol (sample_env 0) (sample_state 1 0 True) =
     (0, \<lparr>ctx = \<lparr>status = 3, mode = 0, restart = True, device_info = [0, 0],
                 doorbell = 0xFFFFFFFF, on_device_ready = False\<rparr>,
          trace = [Msleep 1000, Control_start]\<rparr>) \<and>
   ipts_receiver_handle_reset sample_protocol (sample_env 0) (sample_state 1 0 False) =
     (0, \<lparr>ctx = \<lparr>status = 3, mode = 0, restart = False, device_info = [0, 0],
                 doorbell = 0xFFFFFFFF, on_device_ready = False\<rparr>,
          trace = [Resources_free, Hid_free]\<rparr>)"
  using reset_handler_branches [of "sample_state 1 0 True" sample_protocol "sample_env 0"]
    reset_handler_branches [of "sample_state 1 0 False" sample_protocol "sample_env 0"]
  by (simp add: sample_protocol_def sample_env_def sample_state_def)

text \<open>
  Claim C6. When \<^verbatim>\<open>ipts_resources_alloc\<close> fails, \<^verbatim>\<open>ipts_receiver_handle_set_mode\<close> returns
  that error and issues no Set-Mem-Window command; the dispatcher, for an accepted
  Set-Mode response, then calls \<^verbatim>\<open>ipts_control_stop\<close> exactly once.
\<close>

theorem set_mode_alloc_failure_stops:
  assumes "fst (ipts_resources_alloc E (ctx s)) \<noteq> 0"
  shows "ipts_receiver_handle_set_mode E s =
           (fst (ipts_resources_alloc E (ctx s)),
            \<lparr>ctx = snd (ipts_resources_alloc E (ctx s)),
             trace = trace s @ [Resources_alloc, Log_alloc_failed]\<rparr>) \<and>
         (protocol_wf P \<and> rsp_code rsp = IPTS_RSP_SET_MODE P \<and>
          rsp_status rsp \<noteq> IPTS_STATUS_SENSOR_UNEXPECTED_RESET P \<and>
          \<not> fst (ipts_receiver_handle_error P rsp s) \<longrightarrow>
            ipts_receiver_handle_response P E rsp s =
              \<lparr>ctx = snd (ipts_control_stop E (snd (ipts_resources_alloc E (ctx s)))),
               trace = trace s @
                 [Resources_alloc, Log_alloc_failed,
                  Log_handler_failed (rsp_code rsp) (fst (ipts_resources_alloc E (ctx s))),
                  Control_stop] @
                 (if fst (ipts_control_stop E (snd (ipts_resources_alloc E (ctx s)))) \<noteq> 0
                  then [Log_stop_failed] else [])\<rparr> \<and>
            calls Control_stop (trace (ipts_receiver_handle_response P E rsp s)) =
              calls Control_stop (trace s) + 1 \<and>
            calls Cmd_set_mem_window (trace (ipts_receiver_handle_response P E rsp s)) =
              calls Cmd_set_mem_window (trace s))"
proof (intro conjI impI)
  show handler: "ipts_receiver_handle_set_mode E s =
           (fst (ipts_resources_alloc E (ctx s)),
            \<lparr>ctx = snd (ipts_resources_alloc E (ctx s)),
             trace = trace s @ [Resources_alloc, Log_alloc_failed]\<rparr>)"
    using assms by (simp add: handle_set_mode_eq)
  assume h: "protocol_wf P \<and> rsp_code rsp = IPTS_RSP_SET_MODE P \<and>
          rsp_status rsp \<noteq> IPTS_STATUS_SENSOR_UNEXPECTED_RESET P \<and>
          \<not> fst (ipts_receiver_handle_error P rsp s)"
  then have r: "route P E rsp s = ipts_receiver_handle_set_mode E s"
    by (simp add: route_set_mode)
  show dispatch: "ipts_receiver_handle_response P E rsp s =
              \<lparr>ctx = snd (ipts_control_stop E (snd (ipts_resources_alloc E (ctx s)))),
               trace = trace s @
                 [Resources_alloc, Log_alloc_failed,
                  Log_handler_failed (rsp_code rsp) (fst (ipts_resources_alloc E (ctx s))),
                  Control_stop] @
                 (if fst (ipts_control_stop E (snd (ipts_resources_alloc E (ctx s)))) \<noteq> 0
                  then [Log_stop_failed] else [])\<rparr>"
    using h assms by (simp add: handle_response_routed r handler)
  show "calls Control_stop (trace (ipts_receiver_handle_response P E rsp s)) =
              calls Control_stop (trace s) + 1"
    by (simp add: dispatch calls_simps)
  show "calls Cmd_set_mem_window (trace (ipts_receiver_handle_response P E rsp s)) =
              calls Cmd_set_mem_window (trace s)"
    by (simp add: dispatch calls_simps)
qed

theorem set_mode_alloc_failure_stops_witness:
  "fst (ipts_resources_alloc (sample_env (- 12)) (ctx (sample_state 0 0 False))) = - 12 \<and>
   ipts_receiver_handle_response sample_protocol (sample_env (- 12))
       (sample_response 0x80000002 0) (sample_state 0 0 False) =
     \<lparr>ctx = \<lparr>status = 2, mode = 0, restart = False, device_info = [0, 0],
             doorbell = 0xFFFFFFFF, on_device_ready = False\<rparr>,
      trace = [Resources_alloc, Log_alloc_failed, Log_handler_failed 0x80000002 (- 12),
               Control_stop]\<rparr>"
  using set_mode_alloc_failure_stops [of "sample_env (- 12)" "sample_state 0 0 False"
      sample_protocol "sample_response 0x80000002 0"]
    sample_protocol_wf
  by (simp add: sample_protocol_def sample_env_def sample_state_def sample_response_def
      ipts_receiver_handle_error_def Let_def)

text \<open>
  Claim C7. In Singletouch mode \<^verbatim>\<open>ipts_receiver_handle_feedback\<close> issues exactly one
  Ready-For-Data command and returns its result; in every other mode it issues nothing,
  changes nothing and returns 0.
\<close>

theorem feedback_mode_branching:
  "(mode (ctx s) = IPTS_MODE_SINGLETOUCH P \<longrightarrow>
      ipts_receiver_handle_feedback P E rsp s =
        (fst (ipts_cmd_ready_for_data E (ctx s)),
         \<lparr>ctx = snd (ipts_cmd_ready_for_data E (ctx s)),
          trace = trace s @ [Cmd_ready_for_data]\<rparr>)) \<and>
   (mode (ctx s) \<noteq> IPTS_MODE_SINGLETOUCH P \<longrightarrow>
      ipts_receiver_handle_feedback P E rsp s = (0, s))"
  by (simp add: ipts_receiver_handle_feedback_def call_eq)

theorem feedback_mode_branching_witness:
  "ipts_receiver_handle_feedback sample_protocol (sample_env 0) (sample_response 0x80000006 0)
       (sample_state 1 0 False) =
     (0, (sample_state 1 0 False)\<lparr>trace := [Cmd_ready_for_data]\<rparr>) \<and>
   ipts_receiver_handle_feedback sample_protocol (sample_env 0) (sample_response 0x80000006 0)
       (sample_state 1 1 False) = (0, sample_state 1 1 False)"
  using feedback_mode_branching [of "sample_state 1 0 False" sample_protocol "sample_env 0"
      "sample_response 0x80000006 0"]
    feedback_mode_branching [of "sample_state 1 1 False" sample_protocol "sample_env 0"
      "sample_response 0x80000006 0"]
  by (simp add: sample_protocol_def sample_env_def sample_state_def)

text \<open>
  Claim C8. In Singletouch mode, \<open>n\<close> Ready-For-Data responses in a row add exactly \<open>n\<close>
  to the doorbell register, modulo \<open>2 ^ 32\<close>, and change nothing else, both for the handler
  alone and for accepted responses sent through the dispatcher.
\<close>

theorem doorbell_counts_ready_for_data:
  assumes "mode (ctx s) = IPTS_MODE_SINGLETOUCH P"
  shows "ready_for_data_times P n s =
           s\<lparr>ctx := (ctx s)\<lparr>doorbell := doorbell (ctx s) + of_nat n\<rparr>\<rparr> \<and>
         unat (doorbell (ctx (ready_for_data_times P n s))) =
           (unat (doorbell (ctx s)) + n) mod 2 ^ 32 \<and>
         (protocol_wf P \<and>
          (\<forall>rsp \<in> set rsps. rsp_code rsp = IPTS_RSP_READY_FOR_DATA P \<and> benign P rsp) \<longrightarrow>
            dispatch_all P E rsps s =
              s\<lparr>ctx := (ctx s)\<lparr>doorbell := doorbell (ctx s) + of_nat (length rsps)\<rparr>\<rparr>)"
  by (simp add: ready_for_data_times_singletouch [OF assms] unat_plus_of_nat
      dispatch_all_ready_for_data)

theorem doorbell_counts_ready_for_data_witness:
  "mode (ctx (sample_state 1 0 False)) = IPTS_MODE_SINGLETOUCH sample_protocol \<and>
   doorbell (ctx (sample_state 1 0 False)) = 0xFFFFFFFF \<and>
   doorbell (ctx (ready_for_data_times sample_protocol 3 (sample_state 1 0 False))) = 2 \<and>
   doorbell (ctx (dispatch_all sample_protocol (sample_env 0)
     [sample_response 0x80000005 0, sample_response 0x80000005 10] (sample_state 1 0 False))) = 1"
  using doorbell_counts_ready_for_data [of "sample_state 1 0 False" sample_protocol 3
      "[sample_response 0x80000005 0, sample_response 0x80000005 10]" "sample_env 0"]
    sample_protocol_wf
  by (simp add: sample_protocol_def sample_state_def sample_response_def benign_def)

text \<open>
  Claim C9. Outside Singletouch mode, any number of Ready-For-Data responses leaves the
  doorbell register and the whole state as they were, and every invocation returns 0.
\<close>

theorem ready_for_data_idempotent:
  assumes "mode (ctx s) \<noteq> IPTS_MODE_SINGLETOUCH P"
  shows "ready_for_data_times P n s = s \<and>
         ipts_receiver_handle_ready_for_data P (ready_for_data_times P n s) = (0, s) \<and>
         (protocol_wf P \<and>
          (\<forall>rsp \<in> set rsps. rsp_code rsp = IPTS_RSP_READY_FOR_DATA P \<and> benign P rsp) \<longrightarrow>
            dispatch_all P E rsps s = s)"
  using assms
  by (simp add: ready_for_data_times_other_mode [OF assms] dispatch_all_ready_for_data
      ipts_receiver_handle_ready_for_data_def)

theorem ready_for_data_idempotent_witness:
  "mode (ctx (sample_state 1 1 False)) \<noteq> IPTS_MODE_SINGLETOUCH sample_protocol \<and>
   ready_for_data_times sample_protocol 5 (sample_state 1 1 False) = sample_state 1 1 False \<and>
   ipts_receiver_handle_ready_for_data sample_protocol (sample_state 1 1 False) =
     (0, sample_state 1 1 False) \<and>
   dispatch_all sample_protocol (sample_env 0)
     [sample_response 0x80000005 0, sample_response 0x80000005 10] (sample_state 1 1 False) =
     sample_state 1 1 False"
  using ready_for_data_idempotent [of "sample_state 1 1 False" sample_protocol 5
      "[sample_response 0x80000005 0, sample_response 0x80000005 10]" "sample_env 0"]
    ready_for_data_idempotent [of "sample_state 1 1 False" sample_protocol 0
      "[sample_response 0x80000005 0, sample_response 0x80000005 10]" "sample_env 0"]
    sample_protocol_wf
  by (simp add: sample_protocol_def sample_state_def sample_response_def benign_def
      ready_for_data_times_def)

text \<open>
  Claim C10. In the restart branch of the reset handler the result of
  \<^verbatim>\<open>ipts_control_start\<close> is the handler's result, so a failed start after an accepted Reset
  response makes the dispatcher call \<^verbatim>\<open>ipts_control_stop\<close> once. On the unsolicited-reset
  path a failed \<^verbatim>\<open>ipts_control_restart\<close> is logged and stop is never called.
\<close>

theorem reset_restart_failure_escalates:
  "(restart (ctx s) \<longrightarrow>
      fst (ipts_receiver_handle_reset P E s) =
        fst (ipts_control_start E ((ctx s)\<lparr>status := IPTS_HOST_STATUS_STOPPED P\<rparr>))) \<and>
   (protocol_wf P \<and> rsp_code rsp = IPTS_RSP_RESET_SENSOR P \<and>
    rsp_status rsp \<noteq> IPTS_STATUS_SENSOR_UNEXPECTED_RESET P \<and>
    \<not> fst (ipts_receiver_handle_error P rsp s) \<and> restart (ctx s) \<and>
    fst (ipts_control_start E ((ctx s)\<lparr>status := IPTS_HOST_STATUS_STOPPED P\<rparr>)) \<noteq> 0 \<longrightarrow>
      calls Control_stop (trace (ipts_receiver_handle_response P E rsp s)) =
        calls Control_stop (trace s) + 1) \<and>
   (rsp_status rsp = IPTS_STATUS_SENSOR_UNEXPECTED_RESET P \<longrightarrow>
      calls Control_stop (trace (ipts_receiver_handle_response P E rsp s)) =
        calls Control_stop (trace s) \<and>
      (fst (ipts_control_restart E (ctx s)) \<noteq> 0 \<longrightarrow>
         trace (ipts_receiver_handle_response P E rsp s) =
           trace s @ [Log_sensor_reset, Control_restart, Log_restart_failed]))"
proof (intro conjI impI)
  assume "restart (ctx s)"
  then show "fst (ipts_receiver_handle_reset P E s) =
        fst (ipts_control_start E ((ctx s)\<lparr>status := IPTS_HOST_STATUS_STOPPED P\<rparr>))"
    by (simp add: handle_reset_eq)
next
  assume h: "protocol_wf P \<and> rsp_code rsp = IPTS_RSP_RESET_SENSOR P \<and>
    rsp_status rsp \<noteq> IPTS_STATUS_SENSOR_UNEXPECTED_RESET P \<and>
    \<not> fst (ipts_receiver_handle_error P rsp s) \<and> restart (ctx s) \<and>
    fst (ipts_control_start E ((ctx s)\<lparr>status := IPTS_HOST_STATUS_STOPPED P\<rparr>)) \<noteq> 0"
  then have r: "route P E rsp s = ipts_receiver_handle_reset P E s"
    by (simp add: route_reset)
  show "calls Control_stop (trace (ipts_receiver_handle_response P E rsp s)) =
        calls Control_stop (trace s) + 1"
    using h by (simp add: handle_response_routed r handle_reset_eq calls_simps)
next
  assume u: "rsp_status rsp = IPTS_STATUS_SENSOR_UNEXPECTED_RESET P"
  show "calls Control_stop (trace (ipts_receiver_handle_response P E rsp s)) =
        calls Control_stop (trace s)"
    by (simp add: handle_response_reset_path [OF u] calls_simps)
  assume "fst (ipts_control_restart E (ctx s)) \<noteq> 0"
  then show "trace (ipts_receiver_handle_response P E rsp s) =
           trace s @ [Log_sensor_reset, Control_restart, Log_restart_failed]"
    by (simp add: handle_response_reset_path [OF u])
qed

theorem reset_restart_failure_escalates_witness:
  "protocol_wf sample_protocol \<and>
   trace (ipts_receiver_handle_response sample_protocol (sample_env (- 5))
       (sample_response 0x8000000B 0) (sample_state 1 0 True)) =
     [Msleep 1000, Control_start, Log_handler_failed 0x8000000B (- 5), Control_stop] \<and>
   trace (ipts_receiver_handle_response sample_protocol (sample_env (- 5))
       (sample_response 0x8000000B 12) (sample_state 1 0 True)) =
     [Log_sensor_reset, Control_restart, Log_restart_failed]"
  using reset_restart_failure_escalates [of "sample_state 1 0 True" sample_protocol
      "sample_env (- 5)" "sample_response 0x8000000B 0"]
    reset_restart_failure_escalates [of "sample_state 1 0 True" sample_protocol
      "sample_env (- 5)" "sample_response 0x8000000B 12"]
    sample_protocol_wf
  by (simp add: sample_protocol_def sample_env_def sample_state_def sample_response_def
      ipts_receiver_handle_response_def ipts_receiver_handle_error_def route_def
      ipts_receiver_handle_reset_def call_def call_void_def emit_def calls_def Let_def)

end
